theory Spec2Isabelle
  imports
    Complex_Main
    "HOL-Library.Char_ord"
    "HOL-Library.List_Lexorder"
    "HOL-Library.Product_Lexorder"
    "HOL-Library.Multiset"
begin

section \<open>The volume screener of app.py\<close>

text \<open>
  The program is one script: a text parser (\<open>parse_codes\<close>), a fetcher that normalises
  what the market-data provider returns (\<open>fetch_ohlcv\<close>), a loop over the parsed symbols
  whose body filters one bar series, and a final sort and truncation.

  Modelling conventions.
  \<^item> A Python \<open>str\<close> is a \<open>string\<close>: characters are the code points below 256, ordered by
    code point, and lists of them lexicographically, as Python compares strings.
  \<^item> A Python or numpy float is a \<open>real\<close>; the value NaN is \<open>None\<close> of an option wherever
    the code can produce or meet it (a missing cell, the mean of an empty window, the
    undefined day change). Rounding is not modelled.
  \<^item> The day counts read from the sliders are \<open>nat\<close>: every slider has a positive minimum.
  \<^item> An exception is the left summand of \<open>py_error + 'a\<close>.
\<close>

subsection \<open>Errors\<close>

datatype py_error = IndexError | ZeroDivisionError | ValueError

text \<open>Sequencing: the first exception ends the computation.\<close>

fun bind_err :: "('e + 'a) \<Rightarrow> ('a \<Rightarrow> 'e + 'b) \<Rightarrow> 'e + 'b" where
  "bind_err (Inr x) f = f x"
| "bind_err (Inl e) f = Inl e"

subsection \<open>Strings: the operations \<open>parse_codes\<close> uses\<close>

text \<open>
  \<open>str.splitlines\<close> breaks at LF, VT, FF, CR, FS, GS, RS and NEL (and takes CR LF as one
  break); \<open>str.isspace\<close>, which \<open>str.strip\<close> uses, holds of these and of TAB, US, space
  and NBSP; \<open>str.isdigit\<close> holds of 0-9 and of the superscripts 1, 2, 3.
\<close>

definition is_linebreak :: "char \<Rightarrow> bool" where
  "is_linebreak c \<longleftrightarrow> (of_char c :: nat) \<in> set [10, 11, 12, 13, 28, 29, 30, 133]"

definition isspace :: "char \<Rightarrow> bool" where
  "isspace c \<longleftrightarrow> (of_char c :: nat) \<in> set [9, 10, 11, 12, 13, 28, 29, 30, 31, 32, 133, 160]"

definition isdigit_chr :: "char \<Rightarrow> bool" where
  "isdigit_chr c \<longleftrightarrow>
     (48 \<le> (of_char c :: nat) \<and> (of_char c :: nat) \<le> 57) \<or> (of_char c :: nat) \<in> set [178, 179, 185]"

definition isdigit :: "string \<Rightarrow> bool" where
  "isdigit s \<longleftrightarrow> s \<noteq> [] \<and> list_all isdigit_chr s"

definition replace_comma :: "string \<Rightarrow> string" where
  "replace_comma text = map (\<lambda>c. if c = CHR '','' then CHR 0x0A else c) text"

fun splitlines_from :: "string \<Rightarrow> string \<Rightarrow> string list" where
  "splitlines_from cur [] = (if cur = [] then [] else [cur])"
| "splitlines_from cur [c] = (if is_linebreak c then [cur] else [cur @ [c]])"
| "splitlines_from cur (c # d # cs) =
     (if is_linebreak c then
        (if c = CHR 0x0D \<and> d = CHR 0x0A then cur # splitlines_from [] cs
         else cur # splitlines_from [] (d # cs))
      else splitlines_from (cur @ [c]) (d # cs))"

definition splitlines :: "string \<Rightarrow> string list" where
  "splitlines s = splitlines_from [] s"

definition strip :: "string \<Rightarrow> string" where
  "strip s = rev (dropWhile isspace (rev (dropWhile isspace s)))"

subsection \<open>\<open>parse_codes\<close>\<close>

fun collect_codes :: "string list \<Rightarrow> string list" where
  "collect_codes [] = []"
| "collect_codes (r # raw) =
     (let r' = strip r in
      if r' = [] then collect_codes raw
      else if isdigit r' \<and> length r' = 4 then (r' @ ''.T'') # collect_codes raw
      else r' # collect_codes raw)"

definition parse_codes :: "string \<Rightarrow> string list" where
  "parse_codes text =
     (let raw = splitlines (replace_comma text);
          codes = collect_codes raw
      in sorted_list_of_set (set codes))"

subsection \<open>Frames and \<open>fetch_ohlcv\<close>\<close>

text \<open>
  A cell is a number or missing (NaN, NaT); a date is its timestamp. What the provider
  returns is a frame with an index (the dates) beside its columns, or nothing at all.
  Column labels are taken to be pairwise distinct, as the provider delivers them.
\<close>

type_synonym cell = "real option"

record provider_frame =
  index_name :: "string option"
  col_names :: "string list"
  recs :: "(cell \<times> cell list) list"

record frame =
  labels :: "string list"
  rows :: "cell list list"

record bar =
  Date :: real
  Open :: real
  Close :: real
  Volume :: real

definition pf_empty :: "provider_frame \<Rightarrow> bool" where
  "pf_empty pf \<longleftrightarrow> col_names pf = [] \<or> recs pf = []"

definition reset_index :: "provider_frame \<Rightarrow> py_error + frame" where
  "reset_index pf =
     (let name = (case index_name pf of
                    Some n \<Rightarrow> n
                  | None \<Rightarrow> if ''index'' \<in> set (col_names pf) then ''level_0'' else ''index'')
      in if name \<in> set (col_names pf) then Inl ValueError
         else Inr \<lparr>labels = name # col_names pf, rows = map (\<lambda>(i, cs). i # cs) (recs pf)\<rparr>)"

definition rename_first_to_Date :: "frame \<Rightarrow> frame" where
  "rename_first_to_Date df =
     (if ''Date'' \<in> set (labels df) then df
      else df\<lparr>labels := (case labels df of [] \<Rightarrow> [] | _ # ls \<Rightarrow> ''Date'' # ls)\<rparr>)"

definition keep_cols :: "string list" where
  "keep_cols = [''Date'', ''Open'', ''Close'', ''Volume'']"

fun index_of :: "'a \<Rightarrow> 'a list \<Rightarrow> nat" where
  "index_of x [] = 0"
| "index_of x (y # ys) = (if x = y then 0 else Suc (index_of x ys))"

definition column_cell :: "frame \<Rightarrow> string \<Rightarrow> cell list \<Rightarrow> cell" where
  "column_cell df c r = (let i = index_of c (labels df) in if i < length r then r ! i else None)"

definition row_to_bar :: "frame \<Rightarrow> cell list \<Rightarrow> bar option" where
  "row_to_bar df r =
     (case (column_cell df ''Date'' r, column_cell df ''Open'' r,
            column_cell df ''Close'' r, column_cell df ''Volume'' r) of
        (Some d, Some o_, Some c, Some v) \<Rightarrow> Some \<lparr>Date = d, Open = o_, Close = c, Volume = v\<rparr>
      | _ \<Rightarrow> None)"

definition select_dropna :: "frame \<Rightarrow> bar list" where
  "select_dropna df = List.map_filter (row_to_bar df) (rows df)"

definition fetch_ohlcv :: "provider_frame option \<Rightarrow> py_error + bar list" where
  "fetch_ohlcv resp =
     (case resp of
        None \<Rightarrow> Inr []
      | Some pf \<Rightarrow>
          if pf_empty pf then Inr []
          else bind_err (reset_index pf) (\<lambda>df0.
            let df = rename_first_to_Date df0 in
            if \<exists>c \<in> set keep_cols. c \<notin> set (labels df) then Inr []
            else Inr (select_dropna df)))"

subsection \<open>The loop body: one symbol's bar series against the thresholds\<close>

record config =
  lookback_days :: nat
  recent_days :: nat
  base_days :: nat
  min_recent_ratio :: real
  spike_days :: nat
  min_spike :: real
  max_day_change :: int
  min_base_avg_vol :: int
  top_n :: nat

record row =
  Ticker :: string
  Code :: string
  last_date :: real
  close_price :: real
  day_change_pct :: real
  today_volume :: int
  today_ratio :: real
  recent_avg_volume :: int
  base_avg_volume :: int
  recent_ratio :: real

definition fdiv :: "real \<Rightarrow> real \<Rightarrow> py_error + real" where
  "fdiv a b = (if b = 0 then Inl ZeroDivisionError else Inr (a / b))"

definition safe_pct_change :: "real \<Rightarrow> real \<Rightarrow> py_error + real option" where
  "safe_pct_change today_close prev_close =
     (if prev_close \<le> 0 then Inr None
      else bind_err (fdiv (today_close - prev_close) prev_close) (\<lambda>q. Inr (Some (q * 100))))"

definition min_bars :: "config \<Rightarrow> nat" where
  "min_bars cfg =
     max (max (recent_days cfg + base_days cfg + 5) (spike_days cfg + 5)) (base_days cfg + 10)"

text \<open>\<open>Series.iloc[i]\<close>: a position from the front, or from the back when negative.\<close>

definition iloc :: "'a list \<Rightarrow> int \<Rightarrow> py_error + 'a" where
  "iloc xs i =
     (if 0 \<le> i \<and> i < int (length xs) then Inr (xs ! nat i)
      else if i < 0 \<and> - i \<le> int (length xs) then Inr (xs ! (length xs - nat (- i)))
      else Inl IndexError)"

definition tail_n :: "nat \<Rightarrow> 'a list \<Rightarrow> 'a list" where
  "tail_n n xs = drop (length xs - n) xs"

definition head_n :: "nat \<Rightarrow> 'a list \<Rightarrow> 'a list" where
  "head_n n xs = take n xs"

definition mean :: "real list \<Rightarrow> real option" where
  "mean xs = (if xs = [] then None else Some (sum_list xs / real (length xs)))"

definition py_int :: "real \<Rightarrow> int" where
  "py_int x = (if 0 \<le> x then \<lfloor>x\<rfloor> else \<lceil>x\<rceil>)"

fun remove_dotT :: "string \<Rightarrow> string" where
  "remove_dotT (a # b # cs) =
     (if a = CHR ''.'' \<and> b = CHR ''T'' then remove_dotT cs else a # remove_dotT (b # cs))"
| "remove_dotT cs = cs"

definition recent_avg :: "config \<Rightarrow> real list \<Rightarrow> real option" where
  "recent_avg cfg vol = mean (tail_n (recent_days cfg) vol)"

definition base_window :: "config \<Rightarrow> real list \<Rightarrow> real list" where
  "base_window cfg vol = head_n (base_days cfg) (tail_n (recent_days cfg + base_days cfg) vol)"

definition base_avg :: "config \<Rightarrow> real list \<Rightarrow> real option" where
  "base_avg cfg vol = mean (base_window cfg vol)"

definition spike_base_window :: "config \<Rightarrow> real list \<Rightarrow> real list" where
  "spike_base_window cfg vol = head_n (spike_days cfg) (tail_n (spike_days cfg + 1) vol)"

definition spike_base :: "config \<Rightarrow> real list \<Rightarrow> real option" where
  "spike_base cfg vol = mean (spike_base_window cfg vol)"

text \<open>
  \<open>signals\<close> is the loop body after the length guard (lines 130 to 186): \<open>Inr None\<close> is a
  \<open>continue\<close>, \<open>Inr (Some r)\<close> the appended row, \<open>Inl e\<close> an exception. Every division goes
  through \<open>fdiv\<close>, so that a zero denominator would show as an error.
\<close>

definition signals :: "config \<Rightarrow> string \<Rightarrow> bar list \<Rightarrow> py_error + row option" where
  "signals cfg t df =
     (let vol = map Volume df in
      bind_err (iloc (map Close df) (- 1)) (\<lambda>today_close.
      bind_err (iloc (map Close df) (- 2)) (\<lambda>prev_close.
      bind_err (safe_pct_change today_close prev_close) (\<lambda>pct.
      case pct of
        None \<Rightarrow> Inr None
      | Some day_change \<Rightarrow>
          if day_change > real_of_int (max_day_change cfg) then Inr None
          else
            (case (recent_avg cfg vol, base_avg cfg vol) of
               (Some ra, Some ba) \<Rightarrow>
                 if ba \<le> 0 then Inr None
                 else if ba < real_of_int (min_base_avg_vol cfg) then Inr None
                 else
                   bind_err (fdiv ra ba) (\<lambda>rratio.
                   if rratio < min_recent_ratio cfg then Inr None
                   else
                     bind_err (iloc vol (- 1)) (\<lambda>today_vol.
                     case spike_base cfg vol of
                       None \<Rightarrow> Inr None
                     | Some sb \<Rightarrow>
                         if sb \<le> 0 then Inr None
                         else
                           bind_err (fdiv today_vol sb) (\<lambda>tratio.
                           if tratio < min_spike cfg then Inr None
                           else
                             bind_err (iloc vol (- 2)) (\<lambda>prev_vol.
                             if prev_vol < sb then Inr None
                             else
                               bind_err (iloc (map Date df) (- 1)) (\<lambda>d.
                               Inr (Some \<lparr>Ticker = t, Code = remove_dotT t, last_date = d,
                                          close_price = today_close, day_change_pct = day_change,
                                          today_volume = py_int today_vol, today_ratio = tratio,
                                          recent_avg_volume = py_int ra,
                                          base_avg_volume = py_int ba,
                                          recent_ratio = rratio\<rparr>))))))
             | _ \<Rightarrow> Inr None)))))"

definition loop_body :: "config \<Rightarrow> string \<Rightarrow> bar list \<Rightarrow> py_error + row option" where
  "loop_body cfg t df =
     (if df = [] \<or> length df < min_bars cfg then Inr None else signals cfg t df)"

subsection \<open>The run: guard, loop, ranking\<close>

definition sort_rows :: "row list \<Rightarrow> row list" where
  "sort_rows out = sort_key (\<lambda>r. (- today_ratio r, - recent_ratio r)) out"

definition rank :: "config \<Rightarrow> row list \<Rightarrow> row list" where
  "rank cfg out = head_n (top_n cfg) (sort_rows out)"

datatype outcome = InputError | NoMatches | Results "row list"

text \<open>
  The loop returns the symbols it called the fetcher for, in call order, and the rows
  collected (or the exception that ended it).
\<close>

fun screen_loop ::
  "config \<Rightarrow> (string \<Rightarrow> nat \<Rightarrow> provider_frame option) \<Rightarrow> string list
     \<Rightarrow> string list \<times> (py_error + row list)" where
  "screen_loop cfg provider [] = ([], Inr [])"
| "screen_loop cfg provider (t # ts) =
     (case bind_err (fetch_ohlcv (provider t (lookback_days cfg))) (loop_body cfg t) of
        Inl e \<Rightarrow> ([t], Inl e)
      | Inr r \<Rightarrow>
          (case screen_loop cfg provider ts of
             (fs, Inl e) \<Rightarrow> (t # fs, Inl e)
           | (fs, Inr rs) \<Rightarrow> (t # fs, Inr (case r of None \<Rightarrow> rs | Some x \<Rightarrow> x # rs))))"

definition run ::
  "config \<Rightarrow> (string \<Rightarrow> nat \<Rightarrow> provider_frame option) \<Rightarrow> string
     \<Rightarrow> string list \<times> (py_error + outcome)" where
  "run cfg provider codes_text =
     (let codes = parse_codes codes_text in
      if length codes = 0 then ([], Inr InputError)
      else
        (case screen_loop cfg provider codes of
           (fs, Inl e) \<Rightarrow> (fs, Inl e)
         | (fs, Inr rs) \<Rightarrow>
             if rs = [] then (fs, Inr NoMatches) else (fs, Inr (Results (rank cfg rs)))))"

subsection \<open>The windows as the specification describes them\<close>

text \<open>
  The volumes of the bars at positions \<open>a \<le> i < b\<close> of a series, counted from the oldest
  bar; the most recent bar ("today") is at position \<open>length vol - 1\<close>.
\<close>

definition bars_between :: "real list \<Rightarrow> nat \<Rightarrow> nat \<Rightarrow> real list" where
  "bars_between vol a b = map (\<lambda>i. vol ! i) [a ..< b]"

text \<open>The same series with today's close replaced.\<close>

definition set_today_close :: "bar list \<Rightarrow> real \<Rightarrow> bar list" where
  "set_today_close df c = df[length df - 1 := (df ! (length df - 1))\<lparr>Close := c\<rparr>]"

text \<open>
  Descending order by today's volume ratio, ties broken by the recent/base ratio, also
  descending: \<open>ranks_before a b\<close> says that \<open>a\<close> may stand before \<open>b\<close>.
\<close>

definition ranks_before :: "row \<Rightarrow> row \<Rightarrow> bool" where
  "ranks_before a b \<longleftrightarrow>
     today_ratio b < today_ratio a \<or>
     (today_ratio a = today_ratio b \<and> recent_ratio b \<le> recent_ratio a)"

subsection \<open>Example data\<close>

text \<open>The sliders' default values.\<close>

definition default_cfg :: config where
  "default_cfg =
     \<lparr>lookback_days = 160, recent_days = 5, base_days = 20, min_recent_ratio = 3 / 2,
      spike_days = 20, min_spike = 3, max_day_change = 5, min_base_avg_vol = 100000,
      top_n = 50\<rparr>"

definition no_data :: "string \<Rightarrow> nat \<Rightarrow> provider_frame option" where
  "no_data t period_days = None"

text \<open>
  Thirty bars: twenty-five quiet days, four busier ones, and a spike on the last day with
  the close up 3 percent. In \<open>quiet_prev_series\<close> the day before the spike is quiet again.
\<close>

definition quiet_bar :: bar where
  "quiet_bar = \<lparr>Date = 0, Open = 1000, Close = 1000, Volume = 100000\<rparr>"

definition busy_bar :: bar where
  "busy_bar = \<lparr>Date = 0, Open = 1000, Close = 1000, Volume = 200000\<rparr>"

definition spike_bar :: bar where
  "spike_bar = \<lparr>Date = 1, Open = 1000, Close = 1030, Volume = 600000\<rparr>"

definition spike_series :: "bar list" where
  "spike_series = replicate 25 quiet_bar @ replicate 4 busy_bar @ [spike_bar]"

definition quiet_prev_series :: "bar list" where
  "quiet_prev_series = replicate 25 quiet_bar @ replicate 3 busy_bar @ [quiet_bar, spike_bar]"

definition spike_row :: "string \<Rightarrow> string \<Rightarrow> row" where
  "spike_row t c =
     \<lparr>Ticker = t, Code = c, last_date = 1, close_price = 1030, day_change_pct = 3,
      today_volume = 600000, today_ratio = 5, recent_avg_volume = 280000,
      base_avg_volume = 100000, recent_ratio = 14 / 5\<rparr>"

text \<open>A provider response that carries exactly the given bars, the dates as its index.\<close>

definition frame_of :: "bar list \<Rightarrow> provider_frame" where
  "frame_of bars =
     \<lparr>index_name = Some ''Date'', col_names = [''Open'', ''Close'', ''Volume''],
      recs = map (\<lambda>b. (Some (Date b), [Some (Open b), Some (Close b), Some (Volume b)])) bars\<rparr>"

text \<open>
  A provider with the spiking series for 6758.T and a chosen series for every other symbol.
\<close>

definition provider_of :: "bar list \<Rightarrow> string \<Rightarrow> nat \<Rightarrow> provider_frame option" where
  "provider_of other t period_days =
     (if t = ''6758.T'' then Some (frame_of spike_series) else Some (frame_of other))"

text \<open>The spiking series with one quiet day less: 29 bars, one short of the minimum.\<close>

definition short_series :: "bar list" where
  "short_series = replicate 24 quiet_bar @ replicate 4 busy_bar @ [spike_bar]"

text \<open>Two rows with equal spike ratio 5.0 and recent/base ratios 2.0 and 3.0.\<close>

definition row_A :: row where
  "row_A = (spike_row ''1111.T'' ''1111'')\<lparr>today_ratio := 5, recent_ratio := 2\<rparr>"

definition row_B :: row where
  "row_B = (spike_row ''2222.T'' ''2222'')\<lparr>today_ratio := 5, recent_ratio := 3\<rparr>"

section \<open>Properties\<close>

subsection \<open>Positional access, day change, minimum bar count\<close>

lemma iloc_last: "1 \<le> length xs \<Longrightarrow> iloc xs (- 1) = Inr (xs ! (length xs - 1))"
  by (cases xs) (simp_all add: iloc_def)

lemma iloc_prev: "2 \<le> length xs \<Longrightarrow> iloc xs (- 2) = Inr (xs ! (length xs - 2))"
  by (simp add: iloc_def)

lemma safe_pct_change_eq:
  "safe_pct_change a b = Inr (if b \<le> 0 then None else Some ((a - b) / b * 100))"
  by (simp add: safe_pct_change_def fdiv_def)

lemma min_bars_ge:
  "10 \<le> min_bars cfg"
  "recent_days cfg + base_days cfg + 5 \<le> min_bars cfg"
  "spike_days cfg + 5 \<le> min_bars cfg"
  by (simp_all add: min_bars_def)

subsection \<open>The loop body as one expression\<close>

text \<open>
  With at least two bars no positional access fails and every division has a positive
  denominator, so the chain of guards collapses to a value.
\<close>

lemma signals_eq:
  assumes "2 \<le> length df"
  shows "signals cfg t df = Inr
     (let vol = map Volume df; n = length df;
          today_close = Close (df ! (n - 1)); prev_close = Close (df ! (n - 2)) in
      if prev_close \<le> 0 then None
      else let day_change = (today_close - prev_close) / prev_close * 100 in
        if day_change > real_of_int (max_day_change cfg) then None
        else (case (recent_avg cfg vol, base_avg cfg vol) of
               (Some ra, Some ba) \<Rightarrow>
                 if ba \<le> 0 \<or> ba < real_of_int (min_base_avg_vol cfg) \<or> ra / ba < min_recent_ratio cfg
                 then None
                 else (case spike_base cfg vol of
                         None \<Rightarrow> None
                       | Some sb \<Rightarrow>
                           if sb \<le> 0 \<or> vol ! (n - 1) / sb < min_spike cfg \<or> vol ! (n - 2) < sb
                           then None
                           else Some \<lparr>Ticker = t, Code = remove_dotT t,
                                      last_date = Date (df ! (n - 1)),
                                      close_price = today_close, day_change_pct = day_change,
                                      today_volume = py_int (vol ! (n - 1)),
                                      today_ratio = vol ! (n - 1) / sb,
                                      recent_avg_volume = py_int ra,
                                      base_avg_volume = py_int ba,
                                      recent_ratio = ra / ba\<rparr>)
             | _ \<Rightarrow> None))"
proof -
  have l1: "1 \<le> length df" using assms by simp
  show ?thesis
    using assms l1
    by (simp add: signals_def Let_def iloc_last iloc_prev safe_pct_change_eq fdiv_def
        split: option.splits)
qed


lemma loop_body_eq: "min_bars cfg \<le> length df \<Longrightarrow> loop_body cfg t df = signals cfg t df"
  using min_bars_ge(1) [of cfg] by (auto simp: loop_body_def)

lemma loop_body_short: "length df < min_bars cfg \<Longrightarrow> loop_body cfg t df = Inr None"
  by (simp add: loop_body_def)

lemma loop_body_Some:
  "loop_body cfg t df = Inr (Some r) \<Longrightarrow> min_bars cfg \<le> length df \<and> signals cfg t df = Inr (Some r)"
  by (auto simp: loop_body_def split: if_splits)

lemma signals_Some_iff:
  assumes "2 \<le> length df"
  shows "signals cfg t df = Inr (Some r) \<longleftrightarrow>
     (\<exists>ra ba sb.
        0 < Close (df ! (length df - 2)) \<and>
        (Close (df ! (length df - 1)) - Close (df ! (length df - 2))) / Close (df ! (length df - 2)) * 100
          \<le> real_of_int (max_day_change cfg) \<and>
        recent_avg cfg (map Volume df) = Some ra \<and>
        base_avg cfg (map Volume df) = Some ba \<and>
        0 < ba \<and> real_of_int (min_base_avg_vol cfg) \<le> ba \<and> min_recent_ratio cfg \<le> ra / ba \<and>
        spike_base cfg (map Volume df) = Some sb \<and>
        0 < sb \<and> min_spike cfg \<le> Volume (df ! (length df - 1)) / sb \<and>
        sb \<le> Volume (df ! (length df - 2)) \<and>
        r = \<lparr>Ticker = t, Code = remove_dotT t, last_date = Date (df ! (length df - 1)),
             close_price = Close (df ! (length df - 1)),
             day_change_pct =
               (Close (df ! (length df - 1)) - Close (df ! (length df - 2)))
                 / Close (df ! (length df - 2)) * 100,
             today_volume = py_int (Volume (df ! (length df - 1))),
             today_ratio = Volume (df ! (length df - 1)) / sb,
             recent_avg_volume = py_int ra, base_avg_volume = py_int ba,
             recent_ratio = ra / ba\<rparr>)"
proof -
  have n1: "length df - Suc 0 < length df" and n2: "length df - 2 < length df"
    using assms by simp_all
  show ?thesis
    unfolding signals_eq [OF assms] Let_def
    by (auto simp: nth_map [OF n1] nth_map [OF n2] not_le not_less split: option.splits)
qed

lemma signals_Ticker: "2 \<le> length df \<Longrightarrow> signals cfg t df = Inr (Some r) \<Longrightarrow> Ticker r = t"
  by (auto simp: signals_Some_iff)

lemma loop_body_Ticker: "loop_body cfg t df = Inr (Some r) \<Longrightarrow> Ticker r = t"
proof -
  assume a: "loop_body cfg t df = Inr (Some r)"
  then have "min_bars cfg \<le> length df" and s: "signals cfg t df = Inr (Some r)"
    using loop_body_Some by blast+
  with min_bars_ge(1) [of cfg] have "2 \<le> length df" by linarith
  then show ?thesis using s by (rule signals_Ticker)
qed

subsection \<open>The fetcher on a complete response\<close>

lemma select_dropna_complete:
  "select_dropna \<lparr>labels = [''Date'', ''Open'', ''Close'', ''Volume''],
      rows = map (\<lambda>b. [Some (Date b), Some (Open b), Some (Close b), Some (Volume b)]) xs\<rparr> = xs"
proof -
  have "List.map_filter (row_to_bar \<lparr>labels = [''Date'', ''Open'', ''Close'', ''Volume''], rows = rs\<rparr>)
          (map (\<lambda>b. [Some (Date b), Some (Open b), Some (Close b), Some (Volume b)]) xs) = xs"
    for rs
    by (induction xs) (simp_all add: List.map_filter_simps row_to_bar_def column_cell_def)
  then show ?thesis by (simp add: select_dropna_def)
qed

lemma fetch_frame_of: "fetch_ohlcv (Some (frame_of bars)) = Inr bars"
proof (cases "bars = []")
  case True
  then show ?thesis by (simp add: fetch_ohlcv_def frame_of_def pf_empty_def)
next
  case False
  have r: "reset_index (frame_of bars) =
      Inr \<lparr>labels = [''Date'', ''Open'', ''Close'', ''Volume''],
           rows = map (\<lambda>b. [Some (Date b), Some (Open b), Some (Close b), Some (Volume b)]) bars\<rparr>"
    by (simp add: reset_index_def frame_of_def comp_def)
  from False have ne: "\<not> pf_empty (frame_of bars)"
    by (simp add: pf_empty_def frame_of_def)
  show ?thesis
    by (simp add: fetch_ohlcv_def ne r rename_first_to_Date_def keep_cols_def Let_def
        select_dropna_complete)
qed

subsection \<open>Where the rows of a run come from\<close>

lemma screen_loop_rows:
  "screen_loop cfg provider codes = (fs, Inr rs) \<Longrightarrow> r \<in> set rs \<Longrightarrow>
   \<exists>t \<in> set codes. \<exists>df. fetch_ohlcv (provider t (lookback_days cfg)) = Inr df
        \<and> loop_body cfg t df = Inr (Some r)"
proof (induction codes arbitrary: fs rs)
  case Nil
  then show ?case by simp
next
  case (Cons t ts)
  show ?case
  proof (cases "fetch_ohlcv (provider t (lookback_days cfg))")
    case (Inl e)
    with Cons.prems show ?thesis by simp
  next
    case (Inr df)
    show ?thesis
    proof (cases "loop_body cfg t df")
      case (Inl e)
      with Inr Cons.prems show ?thesis by simp
    next
      case body: (Inr res)
      obtain fs' rest where sl: "screen_loop cfg provider ts = (fs', rest)"
        by (cases "screen_loop cfg provider ts")
      show ?thesis
      proof (cases rest)
        case (Inl e)
        with Inr body sl Cons.prems show ?thesis by simp
      next
        case rs': (Inr rs')
        have rs_eq: "rs = (case res of None \<Rightarrow> rs' | Some x \<Rightarrow> x # rs')"
          using Inr body sl rs' Cons.prems(1) by simp
        show ?thesis
        proof (cases "r \<in> set rs'")
          case True
          from Cons.IH [OF sl [unfolded rs'] True] show ?thesis by auto
        next
          case False
          with rs_eq Cons.prems(2) have "res = Some r" by (cases res) auto
          with Inr body show ?thesis by auto
        qed
      qed
    qed
  qed
qed

lemma set_rank: "set (rank cfg rs) \<subseteq> set rs"
  by (auto simp: rank_def head_n_def sort_rows_def dest: in_set_takeD)

lemma run_row_origin:
  assumes "run cfg provider text = (fs, Inr (Results out))" and "r \<in> set out"
  shows "\<exists>df. fetch_ohlcv (provider (Ticker r) (lookback_days cfg)) = Inr df
           \<and> loop_body cfg (Ticker r) df = Inr (Some r)"
proof -
  obtain fs' res where sl: "screen_loop cfg provider (parse_codes text) = (fs', res)"
    by (cases "screen_loop cfg provider (parse_codes text)")
  from assms(1) sl obtain rs where res: "res = Inr rs" and out: "out = rank cfg rs"
    by (cases res) (auto simp: run_def Let_def split: if_splits)
  from assms(2) out set_rank have "r \<in> set rs" by blast
  from screen_loop_rows [OF sl [unfolded res] this]
  obtain t df where f: "fetch_ohlcv (provider t (lookback_days cfg)) = Inr df"
    and b: "loop_body cfg t df = Inr (Some r)" by blast
  from b have "Ticker r = t" by (rule loop_body_Ticker)
  with f b show ?thesis by auto
qed

lemma run_excludes:
  assumes "fetch_ohlcv (provider t (lookback_days cfg)) = Inr df"
    and "loop_body cfg t df = Inr None"
    and "run cfg provider text = (fs, Inr (Results out))"
  shows "t \<notin> Ticker ` set out"
proof
  assume "t \<in> Ticker ` set out"
  then obtain r where r: "r \<in> set out" and t: "Ticker r = t" by auto
  from run_row_origin [OF assms(3) r] t assms(1,2) show False by auto
qed

subsection \<open>The empty ticker list\<close>

lemma parse_codes_Nil: "parse_codes [] = []"
  by (simp add: parse_codes_def splitlines_def replace_comma_def)

text \<open>
  C8. When the parsed ticker list is empty, the run ends on the input-error path and the
  fetcher has been called for no symbol.
\<close>

theorem C8_empty_codes_input_error:
  "parse_codes codes_text = [] \<Longrightarrow> run cfg provider codes_text = ([], Inr InputError)"
  by (simp add: run_def)

theorem C8_empty_codes_input_error_witness:
  "parse_codes [] = [] \<and> run default_cfg no_data [] = ([], Inr InputError)"
  using C8_empty_codes_input_error [of "[]" default_cfg no_data] by (simp add: parse_codes_Nil)

subsection \<open>The loop body is total\<close>

text \<open>
  C10. On a series that has the minimum number of bars the loop body returns a value (a
  skip or a row), never an exception: the accesses to the last and the second-to-last bar
  are in range and no division by zero is reached.
\<close>

theorem C10_signals_total:
  "min_bars cfg \<le> length df \<Longrightarrow> \<exists>r. signals cfg t df = Inr r \<and> loop_body cfg t df = Inr r"
proof -
  assume le: "min_bars cfg \<le> length df"
  with min_bars_ge(1) [of cfg] have "2 \<le> length df" by linarith
  then show ?thesis by (simp add: signals_eq loop_body_eq [OF le])
qed

theorem C10_signals_total_witness:
  "min_bars default_cfg \<le> length spike_series \<and>
   (\<exists>r. signals default_cfg ''7203.T'' spike_series = Inr r
        \<and> loop_body default_cfg ''7203.T'' spike_series = Inr r)"
proof -
  have h: "min_bars default_cfg \<le> length spike_series" by code_simp
  show ?thesis using h C10_signals_total [OF h, of "''7203.T''"] by simp
qed


subsection \<open>The three volume windows\<close>

lemma take_drop_between:
  "a + k \<le> length xs \<Longrightarrow> take k (drop a xs) = bars_between xs a (a + k)"
  unfolding bars_between_def by (rule nth_equalityI) auto

lemma window_means:
  assumes "min_bars cfg \<le> length vol"
  shows "recent_avg cfg vol
           = mean (bars_between vol (length vol - recent_days cfg) (length vol))"
    and "base_avg cfg vol
           = mean (bars_between vol (length vol - recent_days cfg - base_days cfg)
                     (length vol - recent_days cfg))"
    and "spike_base cfg vol
           = mean (bars_between vol (length vol - 1 - spike_days cfg) (length vol - 1))"
proof -
  let ?n = "length vol"
  have rb: "recent_days cfg + base_days cfg + 5 \<le> ?n" and sp: "spike_days cfg + 5 \<le> ?n"
    using assms min_bars_ge(2,3) [of cfg] by linarith+
  have "tail_n (recent_days cfg) vol = take (recent_days cfg) (drop (?n - recent_days cfg) vol)"
    by (simp add: tail_n_def)
  also have "\<dots> = bars_between vol (?n - recent_days cfg) (?n - recent_days cfg + recent_days cfg)"
    using rb by (intro take_drop_between) simp
  finally have r: "tail_n (recent_days cfg) vol = bars_between vol (?n - recent_days cfg) ?n"
    using rb by simp
  have "base_window cfg vol
          = bars_between vol (?n - (recent_days cfg + base_days cfg))
              (?n - (recent_days cfg + base_days cfg) + base_days cfg)"
    unfolding base_window_def head_n_def tail_n_def using rb by (intro take_drop_between) simp
  then have b: "base_window cfg vol
          = bars_between vol (?n - recent_days cfg - base_days cfg) (?n - recent_days cfg)"
    using rb by (simp add: algebra_simps)
  have "spike_base_window cfg vol
          = bars_between vol (?n - (spike_days cfg + 1)) (?n - (spike_days cfg + 1) + spike_days cfg)"
    unfolding spike_base_window_def head_n_def tail_n_def using sp by (intro take_drop_between) simp
  then have s: "spike_base_window cfg vol
          = bars_between vol (?n - 1 - spike_days cfg) (?n - 1)"
    using sp by (simp add: algebra_simps)
  show "recent_avg cfg vol = mean (bars_between vol (?n - recent_days cfg) ?n)"
    by (simp add: recent_avg_def r)
  show "base_avg cfg vol
           = mean (bars_between vol (?n - recent_days cfg - base_days cfg) (?n - recent_days cfg))"
    by (simp add: base_avg_def b)
  show "spike_base cfg vol = mean (bars_between vol (?n - 1 - spike_days cfg) (?n - 1))"
    by (simp add: spike_base_def s)
qed

text \<open>
  C1. For a series that passes the length guard, the recent average is the mean of the
  volumes of the last \<open>recent_days\<close> bars, the base average the mean of the \<open>base_days\<close>
  bars just before them, and the spike-base average the mean of the \<open>spike_days\<close> bars
  that end the day before today; the row of a passing symbol reports these means and
  their ratios.
\<close>

theorem C1_window_means:
  assumes "min_bars cfg \<le> length df"
  shows "recent_avg cfg (map Volume df)
           = mean (bars_between (map Volume df) (length df - recent_days cfg) (length df)) \<and>
         base_avg cfg (map Volume df)
           = mean (bars_between (map Volume df) (length df - recent_days cfg - base_days cfg)
                     (length df - recent_days cfg)) \<and>
         spike_base cfg (map Volume df)
           = mean (bars_between (map Volume df) (length df - 1 - spike_days cfg) (length df - 1)) \<and>
         (\<forall>r. signals cfg t df = Inr (Some r) \<longrightarrow>
            (\<exists>ra ba sb.
               mean (bars_between (map Volume df) (length df - recent_days cfg) (length df))
                 = Some ra \<and>
               mean (bars_between (map Volume df) (length df - recent_days cfg - base_days cfg)
                       (length df - recent_days cfg)) = Some ba \<and>
               mean (bars_between (map Volume df) (length df - 1 - spike_days cfg) (length df - 1))
                 = Some sb \<and>
               recent_avg_volume r = py_int ra \<and> base_avg_volume r = py_int ba \<and>
               recent_ratio r = ra / ba \<and>
               today_ratio r = Volume (df ! (length df - 1)) / sb))"
proof -
  have le: "min_bars cfg \<le> length (map Volume df)" using assms by simp
  note w = window_means [OF le, simplified]
  from assms min_bars_ge(1) [of cfg] have two: "2 \<le> length df" by linarith
  show ?thesis
    using w by (auto simp: signals_Some_iff [OF two])
qed

theorem C1_window_means_witness:
  "min_bars default_cfg \<le> length spike_series \<and>
   signals default_cfg ''7203.T'' spike_series = Inr (Some (spike_row ''7203.T'' ''7203'')) \<and>
   mean (bars_between (map Volume spike_series) 25 30) = Some 280000 \<and>
   mean (bars_between (map Volume spike_series) 5 25) = Some 100000 \<and>
   mean (bars_between (map Volume spike_series) 9 29) = Some 120000 \<and>
   recent_avg default_cfg (map Volume spike_series) = Some 280000 \<and>
   base_avg default_cfg (map Volume spike_series) = Some 100000 \<and>
   spike_base default_cfg (map Volume spike_series) = Some 120000"
proof -
  have h: "min_bars default_cfg \<le> length spike_series" by code_simp
  have s: "signals default_cfg ''7203.T'' spike_series = Inr (Some (spike_row ''7203.T'' ''7203''))"
    by code_simp
  have n: "length spike_series = 30" by code_simp
  have c: "recent_days default_cfg = 5" "base_days default_cfg = 20" "spike_days default_cfg = 20"
    by (simp_all add: default_cfg_def)
  have m: "mean (bars_between (map Volume spike_series) 25 30) = Some 280000"
    "mean (bars_between (map Volume spike_series) 5 25) = Some 100000"
    "mean (bars_between (map Volume spike_series) 9 29) = Some 120000"
    by code_simp+
  show ?thesis
    using C1_window_means [OF h, of "''7203.T''"] h s m by (simp add: n c)
qed

subsection \<open>The minimum bar count\<close>

text \<open>
  C4. A series with fewer than \<open>max (recent + base + 5) (spike + 5) (base + 10)\<close> bars is
  skipped by the loop body, and its symbol has no row in the output of the run.
\<close>

theorem C4_short_series_skipped:
  "min_bars cfg = Max {recent_days cfg + base_days cfg + 5, spike_days cfg + 5, base_days cfg + 10} \<and>
   (length df < min_bars cfg \<longrightarrow>
      loop_body cfg t df = Inr None \<and>
      (fetch_ohlcv (provider t (lookback_days cfg)) = Inr df \<and>
       run cfg provider codes_text = (fs, Inr (Results out)) \<longrightarrow> t \<notin> Ticker ` set out))"
proof -
  have "min_bars cfg
      = Max {recent_days cfg + base_days cfg + 5, spike_days cfg + 5, base_days cfg + 10}"
    by (simp add: min_bars_def max.commute max.left_commute)
  moreover have "loop_body cfg t df = Inr None" if "length df < min_bars cfg"
    using that by (rule loop_body_short)
  ultimately show ?thesis
    by (auto dest: run_excludes)
qed

theorem C4_short_series_skipped_witness:
  "length short_series < min_bars default_cfg \<and>
   fetch_ohlcv (provider_of short_series ''7203.T'' (lookback_days default_cfg)) = Inr short_series \<and>
   run default_cfg (provider_of short_series) ''7203,6758''
     = ([''6758.T'', ''7203.T''], Inr (Results [spike_row ''6758.T'' ''6758''])) \<and>
   loop_body default_cfg ''7203.T'' short_series = Inr None \<and>
   ''7203.T'' \<notin> Ticker ` set [spike_row ''6758.T'' ''6758'']"
proof -
  have h1: "length short_series < min_bars default_cfg" by code_simp
  have h2: "fetch_ohlcv (provider_of short_series ''7203.T'' (lookback_days default_cfg))
              = Inr short_series"
    by (simp add: provider_of_def fetch_frame_of)
  have h3: "run default_cfg (provider_of short_series) ''7203,6758''
     = ([''6758.T'', ''7203.T''], Inr (Results [spike_row ''6758.T'' ''6758'']))"
    by code_simp
  show ?thesis
    using C4_short_series_skipped [of default_cfg short_series "''7203.T''"
        "provider_of short_series" "''7203,6758''" "[''6758.T'', ''7203.T'']"
        "[spike_row ''6758.T'' ''6758'']"] h1 h2 h3
    by simp
qed

subsection \<open>Continuity with the previous day\<close>

lemma prev_below_spike_base:
  assumes "spike_base cfg (map Volume df) = Some sb" and "Volume (df ! (length df - 2)) < sb"
  shows "loop_body cfg t df = Inr None"
proof (cases "length df < min_bars cfg")
  case True
  then show ?thesis by (rule loop_body_short)
next
  case False
  then have le: "min_bars cfg \<le> length df" by simp
  with min_bars_ge(1) [of cfg] have two: "2 \<le> length df" by linarith
  then have n2: "length df - 2 < length df" by simp
  show ?thesis
    unfolding loop_body_eq [OF le] signals_eq [OF two] Let_def
    using assms by (simp add: nth_map [OF n2] split: option.splits)
qed

text \<open>
  C2. A symbol gets a row only if the previous day's volume is at least the spike-base
  average; when it is strictly below, the symbol is skipped and absent from the output,
  whatever the other conditions.
\<close>

theorem C2_continuity:
  "(loop_body cfg t df = Inr (Some r) \<longrightarrow>
      (\<exists>sb. spike_base cfg (map Volume df) = Some sb \<and> sb \<le> Volume (df ! (length df - 2)))) \<and>
   (spike_base cfg (map Volume df) = Some sb \<and> Volume (df ! (length df - 2)) < sb \<longrightarrow>
      loop_body cfg t df = Inr None \<and>
      (fetch_ohlcv (provider t (lookback_days cfg)) = Inr df \<and>
       run cfg provider codes_text = (fs, Inr (Results out)) \<longrightarrow> t \<notin> Ticker ` set out))"
proof -
  have "\<exists>sb. spike_base cfg (map Volume df) = Some sb \<and> sb \<le> Volume (df ! (length df - 2))"
    if a: "loop_body cfg t df = Inr (Some r)"
  proof -
    from loop_body_Some [OF a] min_bars_ge(1) [of cfg]
    have two: "2 \<le> length df" and s: "signals cfg t df = Inr (Some r)" by auto
    from s show ?thesis unfolding signals_Some_iff [OF two] by blast
  qed
  moreover have "loop_body cfg t df = Inr None"
    if "spike_base cfg (map Volume df) = Some sb" "Volume (df ! (length df - 2)) < sb"
    using that by (rule prev_below_spike_base)
  ultimately show ?thesis
    by (auto dest: run_excludes)
qed

theorem C2_continuity_witness:
  "(loop_body default_cfg ''6758.T'' spike_series = Inr (Some (spike_row ''6758.T'' ''6758'')) \<and>
    (\<exists>sb. spike_base default_cfg (map Volume spike_series) = Some sb
        \<and> sb \<le> Volume (spike_series ! (length spike_series - 2)))) \<and>
   (spike_base default_cfg (map Volume quiet_prev_series) = Some 115000 \<and>
    Volume (quiet_prev_series ! (length quiet_prev_series - 2)) < 115000 \<and>
    fetch_ohlcv (provider_of quiet_prev_series ''7203.T'' (lookback_days default_cfg))
      = Inr quiet_prev_series \<and>
    run default_cfg (provider_of quiet_prev_series) ''7203,6758''
      = ([''6758.T'', ''7203.T''], Inr (Results [spike_row ''6758.T'' ''6758''])) \<and>
    loop_body default_cfg ''7203.T'' quiet_prev_series = Inr None \<and>
    ''7203.T'' \<notin> Ticker ` set [spike_row ''6758.T'' ''6758''])"
proof -
  have a: "loop_body default_cfg ''6758.T'' spike_series = Inr (Some (spike_row ''6758.T'' ''6758''))"
    by code_simp
  have b1: "spike_base default_cfg (map Volume quiet_prev_series) = Some 115000" by code_simp
  have b2: "Volume (quiet_prev_series ! (length quiet_prev_series - 2)) < 115000" by code_simp
  have b3: "fetch_ohlcv (provider_of quiet_prev_series ''7203.T'' (lookback_days default_cfg))
      = Inr quiet_prev_series"
    by (simp add: provider_of_def fetch_frame_of)
  have b4: "run default_cfg (provider_of quiet_prev_series) ''7203,6758''
      = ([''6758.T'', ''7203.T''], Inr (Results [spike_row ''6758.T'' ''6758'']))"
    by code_simp
  show ?thesis
    using C2_continuity [of default_cfg "''6758.T''" spike_series "spike_row ''6758.T'' ''6758''"]
      C2_continuity [of default_cfg "''7203.T''" quiet_prev_series _ 115000
        "provider_of quiet_prev_series" "''7203,6758''" "[''6758.T'', ''7203.T'']"
        "[spike_row ''6758.T'' ''6758'']"] a b1 b2 b3 b4
    by simp
qed

subsection \<open>The day-change filter\<close>

lemma day_change_above_max:
  assumes "0 < Close (df ! (length df - 2))"
    and "real_of_int (max_day_change cfg)
           < (Close (df ! (length df - 1)) - Close (df ! (length df - 2)))
               / Close (df ! (length df - 2)) * 100"
  shows "loop_body cfg t df = Inr None"
proof (cases "length df < min_bars cfg")
  case True
  then show ?thesis by (rule loop_body_short)
next
  case False
  then have le: "min_bars cfg \<le> length df" by simp
  with min_bars_ge(1) [of cfg] have two: "2 \<le> length df" by linarith
  show ?thesis
    unfolding loop_body_eq [OF le] signals_eq [OF two] Let_def
    using assms by simp
qed

lemma lower_close_still_passes:
  assumes a: "loop_body cfg t df = Inr (Some r)" and c: "c \<le> Close (df ! (length df - 1))"
  shows "\<exists>r'. loop_body cfg t (set_today_close df c) = Inr (Some r') \<and>
              day_change_pct r' = (c - Close (df ! (length df - 2))) / Close (df ! (length df - 2)) * 100"
proof -
  let ?n = "length df" and ?df' = "set_today_close df c"
  let ?pc = "Close (df ! (?n - 2))"
  from loop_body_Some [OF a] min_bars_ge(1) [of cfg]
  have le: "min_bars cfg \<le> ?n" and two: "2 \<le> ?n" and s: "signals cfg t df = Inr (Some r)"
    by auto
  have len: "length ?df' = ?n" by (simp add: set_today_close_def)
  have vol: "map Volume ?df' = map Volume df"
    using two by (simp add: set_today_close_def map_update list_update_same_conv)
  have last: "?df' ! (?n - 1) = (df ! (?n - 1))\<lparr>Close := c\<rparr>"
    using two by (simp add: set_today_close_def)
  have prev: "?df' ! (?n - 2) = df ! (?n - 2)"
    using two by (simp add: set_today_close_def)
  from s [unfolded signals_Some_iff [OF two]] obtain ra ba sb where
    pc: "0 < ?pc"
    and dc: "(Close (df ! (?n - 1)) - ?pc) / ?pc * 100 \<le> real_of_int (max_day_change cfg)"
    and rest: "recent_avg cfg (map Volume df) = Some ra" "base_avg cfg (map Volume df) = Some ba"
      "0 < ba" "real_of_int (min_base_avg_vol cfg) \<le> ba" "min_recent_ratio cfg \<le> ra / ba"
      "spike_base cfg (map Volume df) = Some sb" "0 < sb"
      "min_spike cfg \<le> Volume (df ! (?n - 1)) / sb" "sb \<le> Volume (df ! (?n - 2))"
    by blast
  have "(c - ?pc) / ?pc * 100 \<le> (Close (df ! (?n - 1)) - ?pc) / ?pc * 100"
    using c pc by (intro mult_right_mono divide_right_mono) simp_all
  from this dc have dc': "(c - ?pc) / ?pc * 100 \<le> real_of_int (max_day_change cfg)"
    by (rule order_trans)
  have two': "2 \<le> length ?df'" using two len by simp
  have le': "min_bars cfg \<le> length ?df'" using le len by simp
  let ?r' = "\<lparr>Ticker = t, Code = remove_dotT t, last_date = Date (df ! (?n - 1)),
             close_price = c, day_change_pct = (c - ?pc) / ?pc * 100,
             today_volume = py_int (Volume (df ! (?n - 1))),
             today_ratio = Volume (df ! (?n - 1)) / sb,
             recent_avg_volume = py_int ra, base_avg_volume = py_int ba,
             recent_ratio = ra / ba\<rparr>"
  have "signals cfg t ?df' = Inr (Some ?r')"
    unfolding signals_Some_iff [OF two'] len vol last prev
    using pc dc' rest by simp
  then have "loop_body cfg t ?df' = Inr (Some ?r')"
    by (simp add: loop_body_eq [OF le'])
  then show ?thesis by auto
qed

text \<open>
  C3. The row's day change is (today's close - previous close) / previous close * 100 and
  never exceeds the configured maximum; a symbol whose day change strictly exceeds the
  maximum is skipped and absent from the output; and only the upper side is bounded:
  lowering today's close of a passing series, by any amount, leaves it passing.
\<close>

theorem C3_day_change:
  "(loop_body cfg t df = Inr (Some r) \<longrightarrow>
      0 < Close (df ! (length df - 2)) \<and>
      day_change_pct r
        = (Close (df ! (length df - 1)) - Close (df ! (length df - 2)))
            / Close (df ! (length df - 2)) * 100 \<and>
      day_change_pct r \<le> real_of_int (max_day_change cfg)) \<and>
   (0 < Close (df ! (length df - 2)) \<and>
    real_of_int (max_day_change cfg)
      < (Close (df ! (length df - 1)) - Close (df ! (length df - 2)))
          / Close (df ! (length df - 2)) * 100 \<longrightarrow>
      loop_body cfg t df = Inr None \<and>
      (fetch_ohlcv (provider t (lookback_days cfg)) = Inr df \<and>
       run cfg provider codes_text = (fs, Inr (Results out)) \<longrightarrow> t \<notin> Ticker ` set out)) \<and>
   (loop_body cfg t df = Inr (Some r) \<and> c \<le> Close (df ! (length df - 1)) \<longrightarrow>
      (\<exists>r'. loop_body cfg t (set_today_close df c) = Inr (Some r') \<and>
            day_change_pct r'
              = (c - Close (df ! (length df - 2))) / Close (df ! (length df - 2)) * 100))"
proof -
  have "0 < Close (df ! (length df - 2)) \<and>
      day_change_pct r
        = (Close (df ! (length df - 1)) - Close (df ! (length df - 2)))
            / Close (df ! (length df - 2)) * 100 \<and>
      day_change_pct r \<le> real_of_int (max_day_change cfg)"
    if a: "loop_body cfg t df = Inr (Some r)"
  proof -
    from loop_body_Some [OF a] min_bars_ge(1) [of cfg]
    have two: "2 \<le> length df" and s: "signals cfg t df = Inr (Some r)" by auto
    from s show ?thesis unfolding signals_Some_iff [OF two] by auto
  qed
  moreover note day_change_above_max [of df cfg t] lower_close_still_passes [of cfg t df r c]
  ultimately show ?thesis
    by (auto dest: run_excludes)
qed

theorem C3_day_change_witness:
  "(loop_body default_cfg ''6758.T'' spike_series = Inr (Some (spike_row ''6758.T'' ''6758'')) \<and>
    (500::real) \<le> Close (spike_series ! (length spike_series - 1)) \<and>
    day_change_pct (spike_row ''6758.T'' ''6758'') = 3 \<and>
    (\<exists>r'. loop_body default_cfg ''6758.T'' (set_today_close spike_series 500) = Inr (Some r') \<and>
          day_change_pct r' = - 50)) \<and>
   (0 < Close (set_today_close spike_series 1070 ! (length (set_today_close spike_series 1070) - 2)) \<and>
    real_of_int (max_day_change default_cfg) < 7 \<and>
    fetch_ohlcv (provider_of (set_today_close spike_series 1070) ''7203.T''
        (lookback_days default_cfg)) = Inr (set_today_close spike_series 1070) \<and>
    run default_cfg (provider_of (set_today_close spike_series 1070)) ''7203,6758''
      = ([''6758.T'', ''7203.T''], Inr (Results [spike_row ''6758.T'' ''6758''])) \<and>
    loop_body default_cfg ''7203.T'' (set_today_close spike_series 1070) = Inr None \<and>
    ''7203.T'' \<notin> Ticker ` set [spike_row ''6758.T'' ''6758''])"
proof -
  let ?up = "set_today_close spike_series 1070"
  have a: "loop_body default_cfg ''6758.T'' spike_series = Inr (Some (spike_row ''6758.T'' ''6758''))"
    by code_simp
  have a2: "(500::real) \<le> Close (spike_series ! (length spike_series - 1))" by code_simp
  have a3: "Close (spike_series ! (length spike_series - 1)) = 1030"
    "Close (spike_series ! (length spike_series - 2)) = 1000" by code_simp+
  have b1: "Close (?up ! (length ?up - 2)) = 1000" "Close (?up ! (length ?up - 1)) = 1070"
    by code_simp+
  have b2: "max_day_change default_cfg = 5" by (simp add: default_cfg_def)
  have b3: "fetch_ohlcv (provider_of ?up ''7203.T'' (lookback_days default_cfg)) = Inr ?up"
    by (simp add: provider_of_def fetch_frame_of)
  have b4: "run default_cfg (provider_of ?up) ''7203,6758''
      = ([''6758.T'', ''7203.T''], Inr (Results [spike_row ''6758.T'' ''6758'']))"
    by code_simp
  show ?thesis
    using C3_day_change [of default_cfg "''6758.T''" spike_series "spike_row ''6758.T'' ''6758''"
        _ _ _ _ 500]
      C3_day_change [of default_cfg "''7203.T''" ?up _ "provider_of ?up" "''7203,6758''"
        "[''6758.T'', ''7203.T'']" "[spike_row ''6758.T'' ''6758'']"] a a2 a3 b1 b2 b3 b4
    by simp
qed


subsection \<open>Ranking\<close>

lemma sorted_wrt_sort_rows: "sorted_wrt ranks_before (sort_rows out)"
proof -
  have "sorted (map (\<lambda>r. (- today_ratio r, - recent_ratio r)) (sort_rows out))"
    unfolding sort_rows_def by (rule sorted_sort_key)
  then have "sorted_wrt (\<lambda>a b. (- today_ratio a, - recent_ratio a) \<le> (- today_ratio b, - recent_ratio b))
      (sort_rows out)"
    by (simp add: sorted_map)
  then show ?thesis
    by (rule sorted_wrt_mono_rel [rotated]) (auto simp: ranks_before_def)
qed

text \<open>
  C5. The ranker sorts the collected rows (a permutation of them) descending by today's
  volume ratio, ties broken by the recent/base ratio, also descending, and keeps the first
  \<open>top_n\<close> rows of the sorted list: of two ranked rows with equal spike ratio the one
  with the larger recent/base ratio never stands below the other.
\<close>

theorem C5_ranking:
  "rank cfg out = take (top_n cfg) (sort_rows out) \<and>
   mset (sort_rows out) = mset out \<and>
   sorted_wrt ranks_before (sort_rows out) \<and>
   (\<forall>i j. i < j \<and> j < length (rank cfg out) \<longrightarrow>
      today_ratio (rank cfg out ! j) \<le> today_ratio (rank cfg out ! i) \<and>
      (today_ratio (rank cfg out ! i) = today_ratio (rank cfg out ! j) \<longrightarrow>
         recent_ratio (rank cfg out ! j) \<le> recent_ratio (rank cfg out ! i)))"
proof -
  define R where "R = rank cfg out"
  have r: "R = take (top_n cfg) (sort_rows out)"
    by (simp add: R_def rank_def head_n_def)
  have m: "mset (sort_rows out) = mset out"
    by (simp add: sort_rows_def)
  have "sorted_wrt ranks_before R"
    unfolding r using sorted_wrt_sort_rows by (rule sorted_wrt_take)
  then have "ranks_before (R ! i) (R ! j)" if "i < j" "j < length R" for i j
    using that by (simp add: sorted_wrt_iff_nth_less)
  then have "today_ratio (R ! j) \<le> today_ratio (R ! i) \<and>
      (today_ratio (R ! i) = today_ratio (R ! j) \<longrightarrow> recent_ratio (R ! j) \<le> recent_ratio (R ! i))"
    if "i < j" "j < length R" for i j
    using that unfolding ranks_before_def by fastforce
  then show ?thesis
    using r m sorted_wrt_sort_rows unfolding R_def by blast
qed

theorem C5_ranking_witness:
  "rank default_cfg [row_A, row_B] = [row_B, row_A] \<and>
   rank (default_cfg\<lparr>top_n := 1\<rparr>) [row_A, row_B] = [row_B] \<and>
   (0::nat) < 1 \<and> 1 < length (rank default_cfg [row_A, row_B]) \<and>
   today_ratio (rank default_cfg [row_A, row_B] ! 0) = today_ratio (rank default_cfg [row_A, row_B] ! 1) \<and>
   recent_ratio (rank default_cfg [row_A, row_B] ! 1) \<le> recent_ratio (rank default_cfg [row_A, row_B] ! 0)"
proof -
  have a: "rank default_cfg [row_A, row_B] = [row_B, row_A]" by code_simp
  have b: "rank (default_cfg\<lparr>top_n := 1\<rparr>) [row_A, row_B] = [row_B]" by code_simp
  have len: "(0::nat) < 1 \<and> 1 < length (rank default_cfg [row_A, row_B])" by (simp add: a)
  from C5_ranking [of default_cfg "[row_A, row_B]"]
  have "\<forall>i j. i < j \<and> j < length (rank default_cfg [row_A, row_B]) \<longrightarrow>
      today_ratio (rank default_cfg [row_A, row_B] ! j)
        \<le> today_ratio (rank default_cfg [row_A, row_B] ! i) \<and>
      (today_ratio (rank default_cfg [row_A, row_B] ! i)
         = today_ratio (rank default_cfg [row_A, row_B] ! j) \<longrightarrow>
       recent_ratio (rank default_cfg [row_A, row_B] ! j)
         \<le> recent_ratio (rank default_cfg [row_A, row_B] ! i))"
    by blast
  from this [rule_format, of 0 1] len
  have "today_ratio (rank default_cfg [row_A, row_B] ! 0)
         = today_ratio (rank default_cfg [row_A, row_B] ! 1) \<longrightarrow>
       recent_ratio (rank default_cfg [row_A, row_B] ! 1)
         \<le> recent_ratio (rank default_cfg [row_A, row_B] ! 0)"
    by blast
  moreover have "today_ratio (rank default_cfg [row_A, row_B] ! 0)
         = today_ratio (rank default_cfg [row_A, row_B] ! 1)"
    unfolding a by (simp add: row_A_def row_B_def)
  ultimately show ?thesis using a b len by blast
qed


end
